theory Spec2Isabelle
  imports Main
begin

section \<open>Terraform state manager (terraform_state.py)\<close>

text \<open>
  A shallow embedding of the class \<open>TerraformStateManager\<close>. Python values that flow
  through the class are the values \<open>json.load\<close> produces; they are modelled by the
  datatype \<open>json\<close>. Python's \<open>None\<close> is \<open>JNull\<close> (it is what \<open>json.load\<close> returns for
  the text \<open>null\<close>), a \<open>dict\<close> is an association list in insertion order whose lookups go
  through \<open>map_of\<close>, a \<open>list\<close> is a list, a \<open>str\<close> is a string of code points below
  256. Numbers are Python's unbounded integers; floating-point numbers are not
  represented. The constructor \<open>OutsideModel\<close> of \<open>exn\<close> is no exception of Python: it
  marks an input whose value the embedding cannot express.
\<close>

subsection \<open>Python values and exceptions\<close>

datatype json =
    JNull
  | JBool bool
  | JInt int
  | JStr string
  | JList "json list"
  | JDict "(string \<times> json) list"

datatype exn =
    NotFound
  | PermissionDenied
  | NetworkError
  | JSONDecodeError
  | EncodeError
  | KeyError
  | AttributeError
  | TypeError
  | OutsideModel

text \<open>Truth value of an object, as tested by \<open>if not state_data\<close>.\<close>

fun truthy :: "json \<Rightarrow> bool" where
  "truthy JNull = False"
| "truthy (JBool b) = b"
| "truthy (JInt i) = (i \<noteq> 0)"
| "truthy (JStr s) = (s \<noteq> [])"
| "truthy (JList xs) = (xs \<noteq> [])"
| "truthy (JDict kvs) = (kvs \<noteq> [])"

text \<open>\<open>obj.get(key, default)\<close>: only a dict has the method.\<close>

fun dict_get :: "json \<Rightarrow> string \<Rightarrow> json \<Rightarrow> exn + json" where
  "dict_get (JDict kvs) k dflt = Inr (case map_of kvs k of None \<Rightarrow> dflt | Some v \<Rightarrow> v)"
| "dict_get _ k dflt = Inl AttributeError"

text \<open>\<open>obj[key]\<close> with a string key: a missing key of a dict raises \<open>KeyError\<close>,
  every other object raises \<open>TypeError\<close>.\<close>

fun subscript :: "json \<Rightarrow> string \<Rightarrow> exn + json" where
  "subscript (JDict kvs) k = (case map_of kvs k of None \<Rightarrow> Inl KeyError | Some v \<Rightarrow> Inr v)"
| "subscript _ k = Inl TypeError"

text \<open>The sequence a \<open>for\<close> loop runs over: the elements of a list, the keys of a dict,
  the one-character strings of a string; other objects are not iterable.\<close>

fun py_iter :: "json \<Rightarrow> exn + json list" where
  "py_iter (JList xs) = Inr xs"
| "py_iter (JDict kvs) = Inr (map (\<lambda>kv. JStr (fst kv)) kvs)"
| "py_iter (JStr s) = Inr (map (\<lambda>c. JStr [c]) s)"
| "py_iter _ = Inl TypeError"

subsection \<open>The collaborators: blob store and JSON module\<close>

text \<open>
  The S3 client is external. Its state is the content of the store, a map from
  (bucket, key) to bytes, together with the fault, if any, that the service answers a
  read or a write with (permission denied, network error). A read of a key that is not
  stored fails with \<open>NotFound\<close>.
\<close>

record world =
  objects :: "string \<times> string \<Rightarrow> string option"
  get_fault :: "exn option"
  put_fault :: "exn option"

definition s3_download_fileobj :: "world \<Rightarrow> string \<Rightarrow> string \<Rightarrow> exn + string" where
  "s3_download_fileobj w bucket key =
     (case get_fault w of
        Some e \<Rightarrow> Inl e
      | None \<Rightarrow> (case objects w (bucket, key) of None \<Rightarrow> Inl NotFound | Some b \<Rightarrow> Inr b))"

definition s3_upload_file :: "world \<Rightarrow> string \<Rightarrow> string \<Rightarrow> string \<Rightarrow> exn + world" where
  "s3_upload_file w bucket key body =
     (case put_fault w of
        Some e \<Rightarrow> Inl e
      | None \<Rightarrow> Inr (w\<lparr>objects := (objects w)((bucket, key) \<mapsto> body)\<rparr>))"

text \<open>
  The functions \<open>json.load\<close> and \<open>json.dump\<close> of the standard library are parameters of
  the class model: \<open>load\<close> parses a buffer or raises, \<open>dump\<close> writes the text of a value (with
  \<open>indent=2\<close>) or raises. The instance \<open>py_json\<close> below follows the library's encoder and
  decoder.
\<close>

record json_module =
  load :: "string \<Rightarrow> exn + json"
  dump :: "json \<Rightarrow> exn + string"

subsection \<open>TerraformStateManager\<close>

record manager =
  bucket_name :: string
  state_key :: string
  region :: string

text \<open>
  \<open>download_state\<close>: the object is fetched into a temporary file, the file is parsed,
  and every exception of the \<open>try\<close> block is turned into the result \<open>None\<close>.
\<close>

definition download_state :: "json_module \<Rightarrow> manager \<Rightarrow> world \<Rightarrow> json" where
  "download_state J self w =
     (case s3_download_fileobj w (bucket_name self) (state_key self) of
        Inl e \<Rightarrow> JNull
      | Inr temp_file \<Rightarrow>
          (case load J temp_file of
             Inl e \<Rightarrow> JNull
           | Inr state_data \<Rightarrow> state_data))"

text \<open>
  \<open>upload_state\<close>: the whole of \<open>state_data\<close> is written to a temporary file and the
  file is put under the configured bucket and key; every exception of the \<open>try\<close> block
  is turned into the result \<open>False\<close>. The result is the returned flag and the store
  afterwards. The argument is only read.
\<close>

definition upload_state :: "json_module \<Rightarrow> manager \<Rightarrow> json \<Rightarrow> world \<Rightarrow> bool \<times> world" where
  "upload_state J self state_data w =
     (case dump J state_data of
        Inl e \<Rightarrow> (False, w)
      | Inr temp_file \<Rightarrow>
          (case s3_upload_file w (bucket_name self) (state_key self) temp_file of
             Inl e \<Rightarrow> (False, w)
           | Inr w' \<Rightarrow> (True, w')))"

text \<open>The dict that \<open>get_resources\<close> appends for one instance of one resource. The
  items are evaluated in the order written, so the first failing lookup decides the
  exception.\<close>

definition flat_entry :: "json \<Rightarrow> json \<Rightarrow> json \<Rightarrow> json \<Rightarrow> json \<Rightarrow> json" where
  "flat_entry t n p s d =
     JDict [(''type'', t), (''name'', n), (''provider'', p), (''state'', s), (''dependencies'', d)]"

definition make_entry :: "json \<Rightarrow> json \<Rightarrow> exn + json" where
  "make_entry resource instance =
     (case subscript resource ''type'' of Inl e \<Rightarrow> Inl e | Inr t \<Rightarrow>
      case subscript resource ''name'' of Inl e \<Rightarrow> Inl e | Inr n \<Rightarrow>
      case subscript resource ''provider'' of Inl e \<Rightarrow> Inl e | Inr p \<Rightarrow>
      case dict_get instance ''attributes'' (JDict []) of Inl e \<Rightarrow> Inl e | Inr s \<Rightarrow>
      case dict_get resource ''depends_on'' (JList []) of Inl e \<Rightarrow> Inl e | Inr d \<Rightarrow>
        Inr (flat_entry t n p s d))"

text \<open>The inner loop over the instances of one resource; \<open>resources\<close> is the list
  built so far.\<close>

fun instances_loop :: "json \<Rightarrow> json list \<Rightarrow> json list \<Rightarrow> exn + json list" where
  "instances_loop resource [] resources = Inr resources"
| "instances_loop resource (instance # rest) resources =
     (case make_entry resource instance of
        Inl e \<Rightarrow> Inl e
      | Inr r \<Rightarrow> instances_loop resource rest (resources @ [r]))"

text \<open>The outer loop over the resource blocks.\<close>

fun resources_loop :: "json list \<Rightarrow> json list \<Rightarrow> exn + json list" where
  "resources_loop [] resources = Inr resources"
| "resources_loop (resource # rest) resources =
     (case dict_get resource ''instances'' (JList []) of
        Inl e \<Rightarrow> Inl e
      | Inr insts \<Rightarrow>
          (case py_iter insts of
             Inl e \<Rightarrow> Inl e
           | Inr is \<Rightarrow>
               (case instances_loop resource is resources of
                  Inl e \<Rightarrow> Inl e
                | Inr resources' \<Rightarrow> resources_loop rest resources')))"

text \<open>The body of \<open>get_resources\<close> after the download.\<close>

definition resources_of :: "json \<Rightarrow> exn + json list" where
  "resources_of state_data =
     (if \<not> truthy state_data then Inr []
      else
        (case dict_get state_data ''resources'' (JList []) of
           Inl e \<Rightarrow> Inl e
         | Inr rs \<Rightarrow>
             (case py_iter rs of
                Inl e \<Rightarrow> Inl e
              | Inr blocks \<Rightarrow> resources_loop blocks [])))"

definition get_resources :: "json_module \<Rightarrow> manager \<Rightarrow> world \<Rightarrow> exn + json list" where
  "get_resources J self w = resources_of (download_state J self w)"

text \<open>The comprehension \<open>[r for r in all_resources if r['type'] == resource_type]\<close>.\<close>

fun by_type_loop :: "json list \<Rightarrow> string \<Rightarrow> exn + json list" where
  "by_type_loop [] resource_type = Inr []"
| "by_type_loop (r # rest) resource_type =
     (case subscript r ''type'' of
        Inl e \<Rightarrow> Inl e
      | Inr t \<Rightarrow>
          (case by_type_loop rest resource_type of
             Inl e \<Rightarrow> Inl e
           | Inr out \<Rightarrow> Inr (if t = JStr resource_type then r # out else out)))"

definition get_resource_by_type :: "json_module \<Rightarrow> manager \<Rightarrow> world \<Rightarrow> string \<Rightarrow> exn + json list" where
  "get_resource_by_type J self w resource_type =
     (case get_resources J self w of
        Inl e \<Rightarrow> Inl e
      | Inr all_resources \<Rightarrow> by_type_loop all_resources resource_type)"

text \<open>The search loop of \<open>get_resource_by_name\<close>; falling off the end returns \<open>None\<close>.\<close>

fun by_name_loop :: "json list \<Rightarrow> string \<Rightarrow> exn + json" where
  "by_name_loop [] resource_name = Inr JNull"
| "by_name_loop (resource # rest) resource_name =
     (case subscript resource ''name'' of
        Inl e \<Rightarrow> Inl e
      | Inr n \<Rightarrow> if n = JStr resource_name then Inr resource else by_name_loop rest resource_name)"

definition get_resource_by_name :: "json_module \<Rightarrow> manager \<Rightarrow> world \<Rightarrow> string \<Rightarrow> exn + json" where
  "get_resource_by_name J self w resource_name =
     (case get_resources J self w of
        Inl e \<Rightarrow> Inl e
      | Inr all_resources \<Rightarrow> by_name_loop all_resources resource_name)"

definition list_outputs :: "json_module \<Rightarrow> manager \<Rightarrow> world \<Rightarrow> exn + json" where
  "list_outputs J self w =
     (let state_data = download_state J self w in
      if \<not> truthy state_data then Inr (JDict [])
      else dict_get state_data ''outputs'' (JDict []))"

subsection \<open>The state layout of the specification\<close>

text \<open>
  The persisted layout of the specification, read off a parsed document: a resource
  block is a dict, its \<open>instances\<close>, when present, a list of dicts; the keys \<open>type\<close>,
  \<open>name\<close> and \<open>provider\<close> are the ones \<open>get_resources\<close> subscripts.
\<close>

fun dict_lookup :: "json \<Rightarrow> string \<Rightarrow> json option" where
  "dict_lookup (JDict kvs) k = map_of kvs k"
| "dict_lookup _ k = None"

fun is_dict :: "json \<Rightarrow> bool" where
  "is_dict (JDict kvs) = True"
| "is_dict _ = False"

definition has_keys :: "json \<Rightarrow> bool" where
  "has_keys b = (dict_lookup b ''type'' \<noteq> None \<and> dict_lookup b ''name'' \<noteq> None
                 \<and> dict_lookup b ''provider'' \<noteq> None)"

definition block_instances :: "json \<Rightarrow> json list" where
  "block_instances b = (case dict_lookup b ''instances'' of Some (JList is) \<Rightarrow> is | _ \<Rightarrow> [])"

definition block_shape :: "json \<Rightarrow> bool" where
  "block_shape b = (is_dict b \<and>
     (case dict_lookup b ''instances'' of
        None \<Rightarrow> True
      | Some (JList is) \<Rightarrow> list_all is_dict is
      | Some _ \<Rightarrow> False))"

definition doc_blocks :: "json \<Rightarrow> json list" where
  "doc_blocks d = (case dict_lookup d ''resources'' of Some (JList bs) \<Rightarrow> bs | _ \<Rightarrow> [])"

definition doc_shape :: "json \<Rightarrow> bool" where
  "doc_shape d = (is_dict d \<and>
     (case dict_lookup d ''resources'' of
        None \<Rightarrow> True
      | Some (JList bs) \<Rightarrow> list_all block_shape bs
      | Some _ \<Rightarrow> False))"

definition field_or :: "json \<Rightarrow> string \<Rightarrow> json \<Rightarrow> json" where
  "field_or b k dflt = (case dict_lookup b k of None \<Rightarrow> dflt | Some v \<Rightarrow> v)"

text \<open>The flattened resource of the specification for a block and one of its instances,
  and the flattening of a sequence of blocks in document order.\<close>

definition entry_spec :: "json \<Rightarrow> json \<Rightarrow> json" where
  "entry_spec b i =
     flat_entry (the (dict_lookup b ''type'')) (the (dict_lookup b ''name''))
       (the (dict_lookup b ''provider''))
       (field_or i ''attributes'' (JDict [])) (field_or b ''depends_on'' (JList []))"

definition flatten_spec :: "json list \<Rightarrow> json list" where
  "flatten_spec blocks = concat (map (\<lambda>b. map (entry_spec b) (block_instances b)) blocks)"

text \<open>What \<open>get_resources\<close> returns is a list of dicts with exactly the five keys.\<close>

fun is_entry :: "json \<Rightarrow> bool" where
  "is_entry (JDict kvs) = (map fst kvs = [''type'', ''name'', ''provider'', ''state'', ''dependencies''])"
| "is_entry _ = False"

definition has_type :: "string \<Rightarrow> json \<Rightarrow> bool" where
  "has_type T r = (dict_lookup r ''type'' = Some (JStr T))"

definition has_name :: "string \<Rightarrow> json \<Rightarrow> bool" where
  "has_name n r = (dict_lookup r ''name'' = Some (JStr n))"

definition block_named :: "string \<Rightarrow> json \<Rightarrow> bool" where
  "block_named n b = (dict_lookup b ''name'' = Some (JStr n))"

subsection \<open>The JSON text of the standard library: encoder\<close>









subsection \<open>The JSON text of the standard library: decoder\<close>


















subsection \<open>Notions used in the round-trip proof\<close>






subsection \<open>Concrete documents, stores and managers\<close>

text \<open>The document of the end-to-end scenario of the specification.\<close>

definition example_doc :: json where
  "example_doc =
     JDict [(''resources'', JList [JDict [(''type'', JStr ''bucket''), (''name'', JStr ''logs''),
               (''provider'', JStr ''p''),
               (''instances'', JList [JDict [(''attributes'', JDict [(''id'', JStr ''logs-1'')])]]),
               (''depends_on'', JList [])]]),
            (''outputs'', JDict [(''logs_arn'', JDict [(''value'', JStr ''arn:x:logs'')])])]"

text \<open>Two blocks named \<open>x\<close>; the earlier one has no instance.\<close>

definition shadowed_doc :: json where
  "shadowed_doc =
     JDict [(''resources'', JList [
        JDict [(''type'', JStr ''a''), (''name'', JStr ''x''), (''provider'', JStr ''p''),
               (''instances'', JList [])],
        JDict [(''type'', JStr ''b''), (''name'', JStr ''x''), (''provider'', JStr ''p''),
               (''instances'', JList [JDict []])]])]"

text \<open>A block without any key and without instances.\<close>

definition keyless_doc :: json where
  "keyless_doc = JDict [(''resources'', JList [JDict []])]"

text \<open>A block with two instances and a block with one, and a top-level field the
  class never reads.\<close>

definition two_type_doc :: json where
  "two_type_doc =
     JDict [(''resources'', JList [
        JDict [(''type'', JStr ''bucket''), (''name'', JStr ''logs''), (''provider'', JStr ''p''),
               (''instances'', JList [JDict [(''attributes'', JDict [(''id'', JInt 1)])],
                                      JDict [(''attributes'', JDict [(''id'', JInt 2)])]])],
        JDict [(''type'', JStr ''queue''), (''name'', JStr ''jobs''), (''provider'', JStr ''p''),
               (''instances'', JList [JDict []]), (''depends_on'', JList [JStr ''bucket.logs''])]]),
      (''version'', JInt 4)]"

text \<open>A block with an instance and without the key \<open>provider\<close>.\<close>

definition broken_doc :: json where
  "broken_doc =
     JDict [(''resources'', JList [
        JDict [(''type'', JStr ''a''), (''name'', JStr ''x''), (''instances'', JList [JDict []])]])]"



text \<open>A JSON module that knows one text and the document it stands for.\<close>

definition one_text_json :: "string \<Rightarrow> json \<Rightarrow> json_module" where
  "one_text_json text doc =
     \<lparr>load = (\<lambda>b. if b = text then Inr doc else Inl JSONDecodeError),
      dump = (\<lambda>v. if v = doc then Inr text else Inl EncodeError)\<rparr>"

definition store_with :: "string \<Rightarrow> world" where
  "store_with text = \<lparr>objects = [(''tf'', ''dev.tfstate'') \<mapsto> text], get_fault = None, put_fault = None\<rparr>"

definition empty_store :: world where
  "empty_store = \<lparr>objects = Map.empty, get_fault = None, put_fault = None\<rparr>"

definition dev_manager :: manager where
  "dev_manager = \<lparr>bucket_name = ''tf'', state_key = ''dev.tfstate'', region = ''us-east-1''\<rparr>"

section \<open>Properties\<close>

subsection \<open>The flattening loops\<close>

lemma make_entry_ok:
  "is_dict b \<Longrightarrow> has_keys b \<Longrightarrow> is_dict i \<Longrightarrow> make_entry b i = Inr (entry_spec b i)"
  by (cases b; cases i) (auto simp: make_entry_def has_keys_def entry_spec_def field_or_def split: option.splits)

lemma make_entry_KeyError:
  "is_dict b \<Longrightarrow> \<not> has_keys b \<Longrightarrow> make_entry b i = Inl KeyError"
  by (cases b) (auto simp: make_entry_def has_keys_def split: option.splits sum.splits)

lemma instances_loop_ok:
  "is_dict b \<Longrightarrow> has_keys b \<Longrightarrow> list_all is_dict is \<Longrightarrow>
   instances_loop b is acc = Inr (acc @ map (entry_spec b) is)"
  by (induction "is" arbitrary: acc) (simp_all add: make_entry_ok)

lemma instances_loop_KeyError:
  "is_dict b \<Longrightarrow> \<not> has_keys b \<Longrightarrow> is \<noteq> [] \<Longrightarrow> instances_loop b is acc = Inl KeyError"
  by (cases "is") (simp_all add: make_entry_KeyError)

lemma block_shape_iter:
  "block_shape b \<Longrightarrow>
   \<exists>v. dict_get b ''instances'' (JList []) = Inr v \<and> py_iter v = Inr (block_instances b)
       \<and> list_all is_dict (block_instances b) \<and> is_dict b"
  by (cases b) (auto simp: block_shape_def block_instances_def split: option.splits json.splits)

lemma resources_loop_shape:
  "list_all block_shape blocks \<Longrightarrow>
   resources_loop blocks acc =
     (if list_all (\<lambda>b. block_instances b = [] \<or> has_keys b) blocks
      then Inr (acc @ flatten_spec blocks) else Inl KeyError)"
proof (induction blocks arbitrary: acc)
  case Nil
  then show ?case by (simp add: flatten_spec_def)
next
  case (Cons b blocks)
  from Cons.prems have sh: "block_shape b" and rest: "list_all block_shape blocks" by simp_all
  from block_shape_iter [OF sh] obtain v where
    v: "dict_get b ''instances'' (JList []) = Inr v" "py_iter v = Inr (block_instances b)"
    and ds: "list_all is_dict (block_instances b)" and d: "is_dict b" by blast
  show ?case
  proof (cases "has_keys b")
    case True
    then show ?thesis
      using v ds d Cons.IH [OF rest] by (simp add: instances_loop_ok flatten_spec_def)
  next
    case False
    show ?thesis
    proof (cases "block_instances b = []")
      case True
      then show ?thesis using v Cons.IH [OF rest] by (simp add: flatten_spec_def)
    next
      case nonempty: False
      then show ?thesis using v False d by (simp add: instances_loop_KeyError)
    qed
  qed
qed

lemma resources_of_shape:
  assumes "doc_shape d"
  shows "resources_of d =
     (if list_all (\<lambda>b. block_instances b = [] \<or> has_keys b) (doc_blocks d)
      then Inr (flatten_spec (doc_blocks d)) else Inl KeyError)"
proof (cases d)
  case (JDict kvs)
  show ?thesis
  proof (cases "kvs = []")
    case True
    with JDict show ?thesis by (simp add: resources_of_def doc_blocks_def flatten_spec_def)
  next
    case False
    show ?thesis
    proof (cases "map_of kvs ''resources''")
      case None
      with JDict False show ?thesis
        by (simp add: resources_of_def doc_blocks_def flatten_spec_def)
    next
      case (Some v)
      with assms JDict obtain bs where v: "v = JList bs" and sh: "list_all block_shape bs"
        by (auto simp: doc_shape_def split: json.splits)
      from JDict False Some v show ?thesis
        by (simp add: resources_of_def doc_blocks_def resources_loop_shape [OF sh])
    qed
  qed
qed (use assms in \<open>simp_all add: doc_shape_def\<close>)

lemma length_flatten_spec:
  "length (flatten_spec blocks) = sum_list (map (\<lambda>b. length (block_instances b)) blocks)"
  by (induction blocks) (simp_all add: flatten_spec_def)

subsection \<open>The entries are dicts with the five keys\<close>

lemma make_entry_is_entry: "make_entry b i = Inr r \<Longrightarrow> is_entry r"
  by (auto simp: make_entry_def flat_entry_def split: sum.splits)

lemma instances_loop_entries:
  "instances_loop b is acc = Inr out \<Longrightarrow> list_all is_entry acc \<Longrightarrow> list_all is_entry out"
  by (induction "is" arbitrary: acc) (auto split: sum.splits dest: make_entry_is_entry)

lemma resources_loop_entries:
  "resources_loop blocks acc = Inr out \<Longrightarrow> list_all is_entry acc \<Longrightarrow> list_all is_entry out"
proof (induction blocks arbitrary: acc)
  case Nil
  then show ?case by simp
next
  case (Cons b blocks)
  then show ?case
    by (auto split: sum.splits dest: instances_loop_entries)
qed

lemma resources_of_entries: "resources_of d = Inr out \<Longrightarrow> list_all is_entry out"
  by (auto simp: resources_of_def split: if_splits sum.splits dest: resources_loop_entries)

lemma is_entry_subscript:
  "is_entry r \<Longrightarrow> \<exists>t n. subscript r ''type'' = Inr t \<and> dict_lookup r ''type'' = Some t
      \<and> subscript r ''name'' = Inr n \<and> dict_lookup r ''name'' = Some n"
proof (cases r)
  case (JDict kvs)
  assume "is_entry r"
  with JDict have "map fst kvs = [''type'', ''name'', ''provider'', ''state'', ''dependencies'']"
    by simp
  then obtain t n p s d where
    "kvs = [(''type'', t), (''name'', n), (''provider'', p), (''state'', s), (''dependencies'', d)]"
    by (auto simp: map_eq_Cons_conv)
  with JDict show ?thesis by simp
qed simp_all

lemma by_type_loop_filter:
  "list_all is_entry rs \<Longrightarrow> by_type_loop rs T = Inr (filter (has_type T) rs)"
proof (induction rs)
  case Nil
  then show ?case by simp
next
  case (Cons r rs)
  then have "is_entry r" by simp
  from is_entry_subscript [OF this] obtain t where
    "subscript r ''type'' = Inr t" "dict_lookup r ''type'' = Some t" by blast
  with Cons show ?case by (simp add: has_type_def)
qed

lemma by_name_loop_find:
  "list_all is_entry rs \<Longrightarrow>
   by_name_loop rs n = Inr (case List.find (has_name n) rs of None \<Rightarrow> JNull | Some r \<Rightarrow> r)"
proof (induction rs)
  case Nil
  then show ?case by simp
next
  case (Cons r rs)
  then have "is_entry r" by simp
  from is_entry_subscript [OF this] obtain m where
    "subscript r ''name'' = Inr m" "dict_lookup r ''name'' = Some m" by blast
  with Cons show ?case by (simp add: has_name_def)
qed

subsection \<open>Searching the flattened list\<close>

lemma find_app:
  "List.find P (xs @ ys) = (case List.find P xs of None \<Rightarrow> List.find P ys | Some x \<Rightarrow> Some x)"
  by (induction xs) simp_all

lemma has_name_entry_spec:
  "has_keys b \<Longrightarrow> has_name n (entry_spec b i) = block_named n b"
  by (auto simp: has_keys_def has_name_def entry_spec_def flat_entry_def block_named_def)

lemma find_block_entries:
  "has_keys b \<Longrightarrow>
   List.find (has_name n) (map (entry_spec b) is) =
     (if block_named n b \<and> is \<noteq> [] then Some (entry_spec b (hd is)) else None)"
  by (cases "is") (simp_all add: has_name_entry_spec find_None_iff)

lemma find_flatten_spec:
  "list_all (\<lambda>b. block_instances b = [] \<or> has_keys b) blocks \<Longrightarrow>
   List.find (has_name n) (flatten_spec blocks) =
     (case List.find (\<lambda>b. block_named n b \<and> block_instances b \<noteq> []) blocks of
        None \<Rightarrow> None
      | Some b \<Rightarrow> Some (entry_spec b (hd (block_instances b))))"
proof (induction blocks)
  case Nil
  then show ?case by (simp add: flatten_spec_def)
next
  case (Cons b blocks)
  then have IH: "List.find (has_name n) (flatten_spec blocks) =
     (case List.find (\<lambda>b. block_named n b \<and> block_instances b \<noteq> []) blocks of
        None \<Rightarrow> None
      | Some b \<Rightarrow> Some (entry_spec b (hd (block_instances b))))"
    by (simp add: flatten_spec_def)
  have split: "flatten_spec (b # blocks) = map (entry_spec b) (block_instances b) @ flatten_spec blocks"
    by (simp add: flatten_spec_def)
  show ?case
  proof (cases "block_instances b = []")
    case True
    then show ?thesis using IH split by simp
  next
    case False
    with Cons.prems have "has_keys b" by simp
    from find_block_entries [OF this] False IH split show ?thesis
      by (simp add: find_app)
  qed
qed

subsection \<open>The concrete documents\<close>

lemma download_example:
  "download_state (one_text_json ''doc'' d) dev_manager (store_with ''doc'') = d"
  by (simp add: download_state_def s3_download_fileobj_def one_text_json_def store_with_def
      dev_manager_def)

lemma get_resources_shadowed:
  "get_resources (one_text_json ''doc'' shadowed_doc) dev_manager (store_with ''doc'') =
     Inr [JDict [(''type'', JStr ''b''), (''name'', JStr ''x''), (''provider'', JStr ''p''),
                 (''state'', JDict []), (''dependencies'', JList [])]]"
  by (simp add: get_resources_def download_example shadowed_doc_def resources_of_def
      make_entry_def flat_entry_def)

lemma get_resources_two_type:
  "get_resources (one_text_json ''doc'' two_type_doc) dev_manager (store_with ''doc'') =
     Inr [JDict [(''type'', JStr ''bucket''), (''name'', JStr ''logs''), (''provider'', JStr ''p''),
                 (''state'', JDict [(''id'', JInt 1)]), (''dependencies'', JList [])],
          JDict [(''type'', JStr ''bucket''), (''name'', JStr ''logs''), (''provider'', JStr ''p''),
                 (''state'', JDict [(''id'', JInt 2)]), (''dependencies'', JList [])],
          JDict [(''type'', JStr ''queue''), (''name'', JStr ''jobs''), (''provider'', JStr ''p''),
                 (''state'', JDict []), (''dependencies'', JList [JStr ''bucket.logs''])]]"
  by (simp add: get_resources_def download_example two_type_doc_def resources_of_def
      make_entry_def flat_entry_def)

subsection \<open>Strings: the decoder undoes the escapes\<close>





subsection \<open>Integers: the decoder reads back the decimal digits\<close>













subsection \<open>Dicts built from pairs\<close>










subsection \<open>Whitespace and the first character of a value\<close>








subsection \<open>One step of the scanner and of the container parsers\<close>










subsection \<open>The decoder reads back the encoder\<close>











subsection \<open>Parsed values have distinct keys\<close>





section \<open>The claims\<close>

text \<open>
  Claim C1. For a state document whose \<open>resources\<close> field holds the blocks
  \<open>blocks\<close>, each a dict with the keys \<open>type\<close>, \<open>name\<close> and \<open>provider\<close> and with a
  list of dicts as \<open>instances\<close> (absent: none), \<open>get_resources\<close> returns normally the
  entries of all (block, instance) pairs in document order: blocks in stored order, the
  instances of a block in stored order. Each entry carries the block's type, name and
  provider, the instance's attributes as \<open>state\<close> and the block's \<open>depends_on\<close> as
  \<open>dependencies\<close> (both empty when absent). Their number is the sum of the numbers of
  instances, and no blocks give the empty list.
\<close>

theorem get_resources_flattens:
  assumes "download_state J self w = JDict kvs"
    and "map_of kvs ''resources'' = Some (JList blocks)"
    and "list_all (\<lambda>b. block_shape b \<and> has_keys b) blocks"
  shows "get_resources J self w = Inr (flatten_spec blocks)
       \<and> length (flatten_spec blocks) = sum_list (map (\<lambda>b. length (block_instances b)) blocks)
       \<and> (blocks = [] \<longrightarrow> get_resources J self w = Inr [])"
proof -
  from assms(3) have sh: "list_all block_shape blocks"
    and ks: "list_all (\<lambda>b. block_instances b = [] \<or> has_keys b) blocks"
    by (simp_all add: list_all_iff)
  from assms(2) have ne: "kvs \<noteq> []" by auto
  have "resources_of (JDict kvs) = resources_loop blocks []"
    using assms(2) ne by (simp add: resources_of_def)
  then have 1: "get_resources J self w = Inr (flatten_spec blocks)"
    using assms(1) ks by (simp add: get_resources_def resources_loop_shape [OF sh])
  moreover have "flatten_spec [] = []" by (simp add: flatten_spec_def)
  ultimately show ?thesis by (auto simp: length_flatten_spec)
qed

theorem get_resources_flattens_witness:
  "get_resources (one_text_json ''doc'' example_doc) dev_manager (store_with ''doc'') =
     Inr [JDict [(''type'', JStr ''bucket''), (''name'', JStr ''logs''), (''provider'', JStr ''p''),
                 (''state'', JDict [(''id'', JStr ''logs-1'')]), (''dependencies'', JList [])]]"
  using get_resources_flattens [of "one_text_json ''doc'' example_doc" dev_manager "store_with ''doc''"
      "[(''resources'', JList [JDict [(''type'', JStr ''bucket''), (''name'', JStr ''logs''),
               (''provider'', JStr ''p''),
               (''instances'', JList [JDict [(''attributes'', JDict [(''id'', JStr ''logs-1'')])]]),
               (''depends_on'', JList [])]]),
            (''outputs'', JDict [(''logs_arn'', JDict [(''value'', JStr ''arn:x:logs'')])])]"
      "[JDict [(''type'', JStr ''bucket''), (''name'', JStr ''logs''),
               (''provider'', JStr ''p''),
               (''instances'', JList [JDict [(''attributes'', JDict [(''id'', JStr ''logs-1'')])]]),
               (''depends_on'', JList [])]]"]
  by (simp add: download_example example_doc_def block_shape_def has_keys_def flatten_spec_def
      block_instances_def entry_spec_def field_or_def flat_entry_def)



text \<open>
  Claim C3. When the read of the blob store fails (the key is not stored, permission is
  denied, the network fails), or the bytes read do not parse, \<open>download_state\<close> returns
  \<open>None\<close>; being a total function into values it raises nothing. \<open>get_resources\<close> in
  that situation returns the empty list.
\<close>

theorem download_state_fail_soft:
  assumes "s3_download_fileobj w (bucket_name self) (state_key self) = Inl e
         \<or> (\<exists>buf. s3_download_fileobj w (bucket_name self) (state_key self) = Inr buf
                  \<and> load J buf = Inl e)"
  shows "download_state J self w = JNull \<and> get_resources J self w = Inr []"
proof -
  from assms have "download_state J self w = JNull"
    by (auto simp: download_state_def)
  then show ?thesis by (simp add: get_resources_def resources_of_def)
qed

theorem download_state_fail_soft_witness:
  "download_state (one_text_json ''doc'' example_doc) dev_manager empty_store = JNull
   \<and> get_resources (one_text_json ''doc'' example_doc) dev_manager empty_store = Inr []
   \<and> download_state (one_text_json ''doc'' example_doc) dev_manager
        (empty_store\<lparr>get_fault := Some PermissionDenied\<rparr>) = JNull
   \<and> download_state (one_text_json ''doc'' example_doc) dev_manager
        (empty_store\<lparr>get_fault := Some NetworkError\<rparr>) = JNull
   \<and> download_state (one_text_json ''doc'' example_doc) dev_manager (store_with ''{not json'') = JNull
   \<and> get_resources (one_text_json ''doc'' example_doc) dev_manager (store_with ''{not json'') = Inr []"
  using download_state_fail_soft [of empty_store dev_manager NotFound "one_text_json ''doc'' example_doc"]
    download_state_fail_soft [of "empty_store\<lparr>get_fault := Some PermissionDenied\<rparr>" dev_manager
      PermissionDenied "one_text_json ''doc'' example_doc"]
    download_state_fail_soft [of "empty_store\<lparr>get_fault := Some NetworkError\<rparr>" dev_manager
      NetworkError "one_text_json ''doc'' example_doc"]
    download_state_fail_soft [of "store_with ''{not json''" dev_manager JSONDecodeError
      "one_text_json ''doc'' example_doc"]
  by (simp add: s3_download_fileobj_def empty_store_def store_with_def dev_manager_def
      one_text_json_def)

text \<open>
  Claim C4. \<open>get_resource_by_type\<close> returns the entries of \<open>get_resources\<close> whose
  \<open>type\<close> is the string asked for, compared as strings, in their order; when none
  matches the result is the empty list and no exception.
\<close>

theorem get_resource_by_type_filter:
  assumes "get_resources J self w = Inr all_resources"
  shows "get_resource_by_type J self w T = Inr (filter (has_type T) all_resources)
       \<and> ((\<forall>r \<in> set all_resources. \<not> has_type T r) \<longrightarrow> get_resource_by_type J self w T = Inr [])"
proof -
  from assms have "list_all is_entry all_resources"
    by (simp add: get_resources_def resources_of_entries)
  then have "get_resource_by_type J self w T = Inr (filter (has_type T) all_resources)"
    using assms by (simp add: get_resource_by_type_def by_type_loop_filter)
  then show ?thesis by (auto simp: filter_empty_conv)
qed

theorem get_resource_by_type_filter_witness:
  "get_resource_by_type (one_text_json ''doc'' two_type_doc) dev_manager (store_with ''doc'') ''bucket'' =
     Inr [JDict [(''type'', JStr ''bucket''), (''name'', JStr ''logs''), (''provider'', JStr ''p''),
                 (''state'', JDict [(''id'', JInt 1)]), (''dependencies'', JList [])],
          JDict [(''type'', JStr ''bucket''), (''name'', JStr ''logs''), (''provider'', JStr ''p''),
                 (''state'', JDict [(''id'', JInt 2)]), (''dependencies'', JList [])]]
   \<and> get_resource_by_type (one_text_json ''doc'' two_type_doc) dev_manager (store_with ''doc'') ''Bucket'' =
     Inr []"
  using get_resource_by_type_filter [OF get_resources_two_type, of "''bucket''"]
    get_resource_by_type_filter [OF get_resources_two_type, of "''Bucket''"]
  by (simp add: has_type_def)

text \<open>
  Claim C5, as amended. \<open>get_resource_by_name\<close> returns the first entry of
  \<open>get_resources\<close>, in document order, whose \<open>name\<close> is the string asked for, and
  \<open>None\<close> (no exception) when no entry matches. In terms of blocks: among the blocks
  with that name, the entry of the first instance of the earliest block that has an
  instance is returned; a block without instances contributes no entry and is passed over.
\<close>

theorem get_resource_by_name_first_match:
  assumes "get_resources J self w = Inr all_resources"
  shows "(\<forall>i < length all_resources.
            has_name n (all_resources ! i) \<and> (\<forall>j < i. \<not> has_name n (all_resources ! j))
            \<longrightarrow> get_resource_by_name J self w n = Inr (all_resources ! i))
       \<and> ((\<forall>r \<in> set all_resources. \<not> has_name n r) \<longrightarrow> get_resource_by_name J self w n = Inr JNull)
       \<and> (doc_shape (download_state J self w) \<longrightarrow>
            get_resource_by_name J self w n =
              Inr (case List.find (\<lambda>b. block_named n b \<and> block_instances b \<noteq> [])
                          (doc_blocks (download_state J self w)) of
                     None \<Rightarrow> JNull
                   | Some b \<Rightarrow> entry_spec b (hd (block_instances b))))"
proof -
  from assms have "list_all is_entry all_resources"
    by (simp add: get_resources_def resources_of_entries)
  then have eq: "get_resource_by_name J self w n =
      Inr (case List.find (has_name n) all_resources of None \<Rightarrow> JNull | Some r \<Rightarrow> r)"
    using assms by (simp add: get_resource_by_name_def by_name_loop_find)
  have A: "get_resource_by_name J self w n = Inr (all_resources ! i)"
    if "i < length all_resources" "has_name n (all_resources ! i)"
      "\<forall>j < i. \<not> has_name n (all_resources ! j)" for i
  proof -
    from that have "List.find (has_name n) all_resources = Some (all_resources ! i)"
      by (auto simp: find_Some_iff)
    with eq show ?thesis by simp
  qed
  have B: "get_resource_by_name J self w n = Inr JNull"
    if "\<forall>r \<in> set all_resources. \<not> has_name n r"
  proof -
    from that have "List.find (has_name n) all_resources = None"
      by (simp add: find_None_iff)
    with eq show ?thesis by simp
  qed
  have C: "get_resource_by_name J self w n =
              Inr (case List.find (\<lambda>b. block_named n b \<and> block_instances b \<noteq> [])
                          (doc_blocks (download_state J self w)) of
                     None \<Rightarrow> JNull
                   | Some b \<Rightarrow> entry_spec b (hd (block_instances b)))"
    if sh: "doc_shape (download_state J self w)"
  proof -
    let ?bs = "doc_blocks (download_state J self w)"
    from assms resources_of_shape [OF sh]
    have ok: "list_all (\<lambda>b. block_instances b = [] \<or> has_keys b) ?bs"
      and al: "all_resources = flatten_spec ?bs"
      by (auto simp: get_resources_def split: if_splits)
    from eq al find_flatten_spec [OF ok, of n] show ?thesis
      by (simp split: option.splits)
  qed
  from A B C show ?thesis by blast
qed

theorem get_resource_by_name_first_match_witness:
  "get_resource_by_name (one_text_json ''doc'' shadowed_doc) dev_manager (store_with ''doc'') ''x'' =
     Inr (JDict [(''type'', JStr ''b''), (''name'', JStr ''x''), (''provider'', JStr ''p''),
                 (''state'', JDict []), (''dependencies'', JList [])])
   \<and> get_resource_by_name (one_text_json ''doc'' shadowed_doc) dev_manager (store_with ''doc'') ''y'' =
     Inr JNull"
  using get_resource_by_name_first_match [OF get_resources_shadowed, of "''x''"]
    get_resource_by_name_first_match [OF get_resources_shadowed, of "''y''"]
  by (simp add: has_name_def)

text \<open>
  The claim as stated fails: of two blocks named \<open>x\<close>, the earlier one is not the one
  returned when it has no instance.
\<close>

theorem earlier_block_not_returned:
  "block_named ''x'' (doc_blocks shadowed_doc ! 0) \<and> block_named ''x'' (doc_blocks shadowed_doc ! 1)
   \<and> download_state (one_text_json ''doc'' shadowed_doc) dev_manager (store_with ''doc'') = shadowed_doc
   \<and> get_resource_by_name (one_text_json ''doc'' shadowed_doc) dev_manager (store_with ''doc'') ''x'' =
       Inr (JDict [(''type'', JStr ''b''), (''name'', JStr ''x''), (''provider'', JStr ''p''),
                   (''state'', JDict []), (''dependencies'', JList [])])"
  by (simp add: get_resource_by_name_def get_resources_shadowed download_example)
     (simp add: shadowed_doc_def doc_blocks_def block_named_def)

text \<open>
  Claim C6. When the bytes read parse to a dict, the download succeeds with that dict;
  a missing key \<open>resources\<close> makes \<open>get_resources\<close> return the empty list and a missing
  key \<open>outputs\<close> makes \<open>list_outputs\<close> return the empty dict. This covers the
  document \<open>{}\<close>.
\<close>

theorem missing_keys_tolerated:
  assumes "s3_download_fileobj w (bucket_name self) (state_key self) = Inr buf"
    and "load J buf = Inr (JDict kvs)"
  shows "download_state J self w = JDict kvs
       \<and> (map_of kvs ''resources'' = None \<longrightarrow> get_resources J self w = Inr [])
       \<and> (map_of kvs ''outputs'' = None \<longrightarrow> list_outputs J self w = Inr (JDict []))"
proof -
  from assms have d: "download_state J self w = JDict kvs"
    by (simp add: download_state_def)
  have "get_resources J self w = Inr []" if "map_of kvs ''resources'' = None"
    using d that by (simp add: get_resources_def resources_of_def)
  moreover have "list_outputs J self w = Inr (JDict [])" if "map_of kvs ''outputs'' = None"
    using d that by (simp add: list_outputs_def)
  ultimately show ?thesis using d by blast
qed

theorem missing_keys_tolerated_witness:
  "download_state (one_text_json ''{}'' (JDict [])) dev_manager (store_with ''{}'') = JDict []
   \<and> get_resources (one_text_json ''{}'' (JDict [])) dev_manager (store_with ''{}'') = Inr []
   \<and> list_outputs (one_text_json ''{}'' (JDict [])) dev_manager (store_with ''{}'') = Inr (JDict [])
   \<and> get_resources (one_text_json ''v'' (JDict [(''version'', JInt 4)])) dev_manager (store_with ''v'') = Inr []
   \<and> list_outputs (one_text_json ''v'' (JDict [(''version'', JInt 4)])) dev_manager (store_with ''v'')
       = Inr (JDict [])"
  using missing_keys_tolerated [of "store_with ''{}''" dev_manager "''{}''" "one_text_json ''{}'' (JDict [])" "[]"]
    missing_keys_tolerated [of "store_with ''v''" dev_manager "''v''"
      "one_text_json ''v'' (JDict [(''version'', JInt 4)])" "[(''version'', JInt 4)]"]
  by (simp add: s3_download_fileobj_def store_with_def dev_manager_def one_text_json_def)

text \<open>
  Claim C7. When the write to the blob store fails, \<open>upload_state\<close> returns \<open>False\<close>
  and the store is as before; when it succeeds, \<open>upload_state\<close> returns \<open>True\<close> and the
  serialized document is stored under the configured bucket and key. The function is
  total, so nothing is raised, and its argument \<open>state_data\<close> is a value it only reads.
\<close>

theorem upload_state_failure_isolated:
  assumes "dump J state_data = Inr body"
  shows "(s3_upload_file w (bucket_name self) (state_key self) body = Inl e \<longrightarrow>
            upload_state J self state_data w = (False, w))
       \<and> (s3_upload_file w (bucket_name self) (state_key self) body = Inr w' \<longrightarrow>
            upload_state J self state_data w = (True, w')
            \<and> objects w' (bucket_name self, state_key self) = Some body)"
  using assms by (auto simp: upload_state_def s3_upload_file_def split: option.splits)

theorem upload_state_failure_isolated_witness:
  "upload_state (one_text_json ''doc'' example_doc) dev_manager example_doc
       (empty_store\<lparr>put_fault := Some PermissionDenied\<rparr>)
     = (False, empty_store\<lparr>put_fault := Some PermissionDenied\<rparr>)
   \<and> upload_state (one_text_json ''doc'' example_doc) dev_manager example_doc
       (empty_store\<lparr>put_fault := Some NetworkError\<rparr>)
     = (False, empty_store\<lparr>put_fault := Some NetworkError\<rparr>)
   \<and> upload_state (one_text_json ''doc'' example_doc) dev_manager example_doc empty_store
     = (True, store_with ''doc'')"
  using upload_state_failure_isolated [of "one_text_json ''doc'' example_doc" example_doc "''doc''"
      "empty_store\<lparr>put_fault := Some PermissionDenied\<rparr>" dev_manager PermissionDenied]
    upload_state_failure_isolated [of "one_text_json ''doc'' example_doc" example_doc "''doc''"
      "empty_store\<lparr>put_fault := Some NetworkError\<rparr>" dev_manager NetworkError]
    upload_state_failure_isolated [of "one_text_json ''doc'' example_doc" example_doc "''doc''"
      empty_store dev_manager _ "store_with ''doc''"]
  by (simp add: s3_upload_file_def empty_store_def store_with_def dev_manager_def one_text_json_def)

text \<open>
  Claim C8. For a downloaded document (a dict), \<open>list_outputs\<close> returns the value
  stored under \<open>outputs\<close> as it is, with the same keys, order and entries; without that
  key the result is the empty dict.
\<close>

theorem list_outputs_verbatim:
  assumes "download_state J self w = JDict kvs"
  shows "list_outputs J self w = Inr (case map_of kvs ''outputs'' of None \<Rightarrow> JDict [] | Some v \<Rightarrow> v)"
  using assms by (cases "kvs = []") (simp_all add: list_outputs_def)

theorem list_outputs_verbatim_witness:
  "list_outputs (one_text_json ''doc'' example_doc) dev_manager (store_with ''doc'') =
     Inr (JDict [(''logs_arn'', JDict [(''value'', JStr ''arn:x:logs'')])])"
  using list_outputs_verbatim [of "one_text_json ''doc'' example_doc" dev_manager "store_with ''doc''"]
  by (simp add: download_example example_doc_def)



text \<open>
  Claim C10, as amended. For a downloaded document of the persisted layout (a dict whose
  \<open>resources\<close>, when present, is a list of dicts, each with a list of dicts as
  \<open>instances\<close> when present), \<open>get_resources\<close> returns normally exactly when every
  block that has an instance has the keys \<open>type\<close>, \<open>name\<close> and \<open>provider\<close>;
  otherwise it raises \<open>KeyError\<close>, which reaches the caller.
\<close>

theorem get_resources_total_or_KeyError:
  assumes "doc_shape (download_state J self w)"
  shows "get_resources J self w =
     (if list_all (\<lambda>b. block_instances b = [] \<or> has_keys b) (doc_blocks (download_state J self w))
      then Inr (flatten_spec (doc_blocks (download_state J self w)))
      else Inl KeyError)"
  using resources_of_shape [OF assms] by (simp add: get_resources_def)

theorem get_resources_total_or_KeyError_witness:
  "get_resources (one_text_json ''doc'' broken_doc) dev_manager (store_with ''doc'') = Inl KeyError
   \<and> get_resources (one_text_json ''doc'' keyless_doc) dev_manager (store_with ''doc'') = Inr []"
proof -
  have b: "doc_shape (download_state (one_text_json ''doc'' broken_doc) dev_manager (store_with ''doc''))"
    by (simp add: download_example broken_doc_def doc_shape_def block_shape_def)
  have k: "doc_shape (download_state (one_text_json ''doc'' keyless_doc) dev_manager (store_with ''doc''))"
    by (simp add: download_example keyless_doc_def doc_shape_def block_shape_def)
  show ?thesis
    using get_resources_total_or_KeyError [OF b] get_resources_total_or_KeyError [OF k]
    by (simp add: download_example broken_doc_def keyless_doc_def doc_blocks_def
        block_instances_def has_keys_def flatten_spec_def)
qed

text \<open>
  The claim as stated fails: a block that lacks the three keys and has no instance
  raises nothing.
\<close>

theorem keyless_block_no_error:
  "download_state (one_text_json ''doc'' keyless_doc) dev_manager (store_with ''doc'') = keyless_doc
   \<and> doc_blocks keyless_doc = [JDict []] \<and> \<not> has_keys (JDict [])
   \<and> get_resources (one_text_json ''doc'' keyless_doc) dev_manager (store_with ''doc'') = Inr []"
  by (simp add: download_example get_resources_def)
     (simp add: keyless_doc_def doc_blocks_def has_keys_def resources_of_def)
end
